theory Spec2Isabelle
  imports Main "HOL-Library.Word"
begin

section \<open>The DJ persona client: view state of \<open>frontend/src/App.js\<close>\<close>

text \<open>
  The client is two React components, \<open>HomePage\<close> and \<open>GalleryPage\<close>. Each is modelled
  by a record of its \<open>useState\<close> cells, one function per event handler, and a render
  function from the state to the dynamic content of the JSX it returns.

  A handler's visible actions outside the component state (notifications, console
  output, requests, navigation) are returned as a list of effects, in program order.
  An \<open>async\<close> handler is split at its single \<open>await\<close>: the \<open>_call\<close> part runs up to
  the request, the \<open>_settle\<close> part runs on the state found when the promise settles,
  with the outcome of the request (\<open>Inl\<close> a rejection, \<open>Inr\<close> the response body).
\<close>

subsection \<open>JavaScript strings and \<open>String.prototype.trim\<close>\<close>

text \<open>A JavaScript string is a sequence of UTF-16 code units.\<close>

type_synonym js_string = "16 word list"

text \<open>An ASCII literal of the source, as code units.\<close>

definition js :: "string \<Rightarrow> js_string" where
  "js s = map of_char s"

text \<open>
  The code units that \<open>trim\<close> strips: ECMAScript's WhiteSpace (TAB, VT, FF, ZWNBSP and
  the space separators) and LineTerminator (LF, CR, LS, PS).
\<close>

definition isWhiteSpace :: "16 word \<Rightarrow> bool" where
  "isWhiteSpace c =
     (c = 0x0009 \<or> c = 0x000A \<or> c = 0x000B \<or> c = 0x000C \<or> c = 0x000D \<or> c = 0x0020 \<or>
      c = 0x00A0 \<or> c = 0x1680 \<or> (0x2000 \<le> c \<and> c \<le> 0x200A) \<or> c = 0x2028 \<or>
      c = 0x2029 \<or> c = 0x202F \<or> c = 0x205F \<or> c = 0x3000 \<or> c = 0xFEFF)"

definition trim :: "js_string \<Rightarrow> js_string" where
  "trim s = rev (dropWhile isWhiteSpace (rev (dropWhile isWhiteSpace s)))"

text \<open>Truthiness of a string: every string but the empty one.\<close>

definition truthy :: "js_string \<Rightarrow> bool" where
  "truthy s = (s \<noteq> [])"

text \<open>
  A property of a response body that the source guards before use. \<open>Absent\<close> is a
  missing property (\<open>undefined\<close>), \<open>Null\<close> is JSON \<open>null\<close>.
\<close>

datatype 'a js_field = Absent | Null | Present 'a

text \<open>\<open>f || d\<close> on a string property: the default replaces every falsy value.\<close>

definition js_or :: "js_string js_field \<Rightarrow> js_string \<Rightarrow> js_string" where
  "js_or f d = (case f of Present v \<Rightarrow> (if truthy v then v else d) | _ \<Rightarrow> d)"

subsection \<open>Data model\<close>

text \<open>
  Response bodies are typed as the backend interface gives them. The properties that the
  source itself reads defensively (\<open>||\<close>, \<open>?.\<close>, \<open>&&\<close>) are \<open>js_field\<close>s.
\<close>

record spotify_data =
  artists :: "js_string list js_field"
  genres :: "js_string list js_field"
  artists_text :: "js_string js_field"
  genres_text :: "js_string js_field"

record persona =
  dj_name :: js_string
  bio :: js_string
  palette :: "js_string list"
  style_tags :: "js_string list"
  logo_shape :: js_string

text \<open>
  The body of \<open>POST /api/generate\<close>. Its \<open>prompts\<close> property is the field
  \<open>result_prompts\<close>, to keep it apart from the \<open>prompts\<close> state cell of the gallery.
\<close>

record generation_result =
  session_id :: js_string
  persona :: persona
  result_prompts :: "js_string list"
  uploaded_photos :: "js_string list js_field"
  image_urls :: "js_string list js_field"

text \<open>The bodies of the three other endpoints.\<close>

datatype session_response = SessionResponse (spotify_data: "spotify_data js_field")

datatype login_response = LoginResponse (auth_url: js_string)

datatype regenerate_response = RegenerateResponse (response_prompts: "js_string list")

text \<open>The reason of a rejected axios promise. The source only logs it.\<close>

datatype axios_error = NetworkError | StatusError nat

text \<open>
  The requests of the client. The form of \<open>POST /api/generate\<close> is the list of
  \<open>FormData.append\<close> calls, in order.
\<close>

datatype request =
    GetLoginSpotify
  | GetSessionSpotify js_string
  | PostGenerate "(string \<times> js_string) list"
  | PostRegeneratePrompts js_string

datatype toast_kind = Success | Error | Info

datatype effect =
    Toast toast_kind string
  | ConsoleError string axios_error
  | Axios request
  | SetLocationHref js_string

text \<open>
  \<open>window.location\<close>: the path and the query, the latter as \<open>URLSearchParams\<close> parses
  it (name and value pairs in order, duplicates kept).
\<close>

record location =
  pathname :: js_string
  search :: "(js_string \<times> js_string) list"

text \<open>\<open>URLSearchParams.get\<close>: the first value of the name, or \<open>null\<close>.\<close>

definition get :: "(js_string \<times> js_string) list \<Rightarrow> js_string \<Rightarrow> js_string option" where
  "get params name = map_of params name"

text \<open>
  \<open>history.replaceState({}, title, path)\<close> with a path: the visible URL becomes the path
  alone, with no query, and the document is not reloaded.
\<close>

definition replaceState :: "js_string \<Rightarrow> location \<Rightarrow> location" where
  "replaceState path loc = loc\<lparr>pathname := path, search := []\<rparr>"

subsection \<open>\<open>HomePage\<close>: state and handlers\<close>

record home_state =
  spotifyData :: "spotify_data option"
  loading :: bool
  sessionId :: "js_string option"
  artistsText :: js_string
  genresText :: js_string
  generating :: bool
  result :: "generation_result option"

text \<open>The initial values of the \<open>useState\<close> cells.\<close>

definition HomePage_init :: home_state where
  "HomePage_init =
     \<lparr>spotifyData = None, loading = False, sessionId = None, artistsText = [],
      genresText = [], generating = False, result = None\<rparr>"

text \<open>
  \<open>fetchSpotifyData\<close>: the request, and what follows the \<open>await\<close>. A body without a
  truthy \<open>spotify_data\<close> changes nothing; a rejection is logged only.
\<close>

definition fetchSpotifyData_call :: "js_string \<Rightarrow> effect list" where
  "fetchSpotifyData_call sid = [Axios (GetSessionSpotify sid)]"

definition fetchSpotifyData_settle ::
  "axios_error + session_response \<Rightarrow> home_state \<Rightarrow> home_state \<times> effect list" where
  "fetchSpotifyData_settle outcome s =
     (case outcome of
        Inr response \<Rightarrow>
          (case spotify_data response of
             Present d \<Rightarrow>
               (s\<lparr>spotifyData := Some d,
                  artistsText := js_or (artists_text d) [],
                  genresText := js_or (genres_text d) []\<rparr>,
                [Toast Success ''Spotify data loaded successfully!''])
           | _ \<Rightarrow> (s, []))
      | Inl err \<Rightarrow> (s, [ConsoleError ''Error fetching Spotify data:'' err]))"

text \<open>
  The effect run once after the first render: the check for a return from Spotify
  authorisation. Both parameters are tested for truthiness only.
\<close>

definition useEffect_mount ::
  "location \<Rightarrow> home_state \<Rightarrow> home_state \<times> location \<times> effect list" where
  "useEffect_mount loc s =
     (let spotifyConnected = get (search loc) (js ''spotify_connected'');
          session = get (search loc) (js ''session'')
      in case (spotifyConnected, session) of
           (Some c, Some sid) \<Rightarrow>
             if truthy c \<and> truthy sid
             then (s\<lparr>sessionId := Some sid\<rparr>,
                   replaceState (pathname loc) loc,
                   fetchSpotifyData_call sid)
             else (s, loc, [])
         | _ \<Rightarrow> (s, loc, []))"

text \<open>\<open>handleSpotifyConnect\<close>. On success the browser leaves the page.\<close>

definition handleSpotifyConnect_call :: "home_state \<Rightarrow> home_state \<times> effect list" where
  "handleSpotifyConnect_call s = (s\<lparr>loading := True\<rparr>, [Axios GetLoginSpotify])"

definition handleSpotifyConnect_settle ::
  "axios_error + login_response \<Rightarrow> home_state \<Rightarrow> home_state \<times> effect list" where
  "handleSpotifyConnect_settle outcome s =
     (case outcome of
        Inr response \<Rightarrow> (s, [SetLocationHref (auth_url response)])
      | Inl err \<Rightarrow>
          (s\<lparr>loading := False\<rparr>,
           [ConsoleError ''Error connecting to Spotify:'' err,
            Toast Error ''Failed to connect to Spotify'']))"

text \<open>
  \<open>handleGenerate\<close>. The guard returns before any state is set; past it the busy flag
  is raised and the form is posted. \<open>sessionId || ''\<close> sends the empty string for
  \<open>null\<close>.
\<close>

definition handleGenerate_call :: "home_state \<Rightarrow> home_state \<times> effect list" where
  "handleGenerate_call s =
     (if \<not> truthy (trim (artistsText s)) \<and> \<not> truthy (trim (genresText s))
      then (s, [Toast Error
                  ''Please provide artists or genres, or connect your Spotify account''])
      else (s\<lparr>generating := True\<rparr>,
            [Axios (PostGenerate
               [(''session_id'', (case sessionId s of Some sid \<Rightarrow> sid | None \<Rightarrow> [])),
                (''artists_text'', artistsText s),
                (''genres_text'', genresText s)])]))"

definition handleGenerate_settle ::
  "axios_error + generation_result \<Rightarrow> home_state \<Rightarrow> home_state \<times> effect list" where
  "handleGenerate_settle outcome s =
     (case outcome of
        Inr data \<Rightarrow>
          (s\<lparr>result := Some data, generating := False\<rparr>,
           [Toast Success ''DJ Persona generated successfully!''])
      | Inl err \<Rightarrow>
          (s\<lparr>generating := False\<rparr>,
           [ConsoleError ''Error generating persona:'' err,
            Toast Error ''Failed to generate DJ persona'']))"

text \<open>
  The whole of \<open>handleGenerate\<close> when nothing else runs while the request is in
  flight: the continuation runs only if the guard let the request out.
\<close>

definition handleGenerate ::
  "axios_error + generation_result \<Rightarrow> home_state \<Rightarrow> home_state \<times> effect list" where
  "handleGenerate outcome s =
     (if \<not> truthy (trim (artistsText s)) \<and> \<not> truthy (trim (genresText s))
      then handleGenerate_call s
      else (let (s1, e1) = handleGenerate_call s;
                (s2, e2) = handleGenerate_settle outcome s1
            in (s2, e1 @ e2)))"

definition clearSpotify :: "home_state \<Rightarrow> home_state \<times> effect list" where
  "clearSpotify s =
     (s\<lparr>spotifyData := None, sessionId := None, artistsText := [], genresText := []\<rparr>,
      [Toast Info ''Spotify data cleared''])"

text \<open>The inline handlers: the two inputs and the gallery's \<open>onBack\<close>.\<close>

definition onChange_artists :: "js_string \<Rightarrow> home_state \<Rightarrow> home_state" where
  "onChange_artists v s = s\<lparr>artistsText := v\<rparr>"

definition onChange_genres :: "js_string \<Rightarrow> home_state \<Rightarrow> home_state" where
  "onChange_genres v s = s\<lparr>genresText := v\<rparr>"

definition onBack :: "home_state \<Rightarrow> home_state" where
  "onBack s = s\<lparr>result := None\<rparr>"

subsection \<open>\<open>HomePage\<close>: what is rendered\<close>

text \<open>\<open>Array.prototype.join\<close> on an array of strings.\<close>

fun join :: "js_string \<Rightarrow> js_string list \<Rightarrow> js_string" where
  "join sep [] = []"
| "join sep [x] = x"
| "join sep (x # y # ys) = x @ sep @ join sep (y # ys)"

text \<open>
  One line of the connected card: \<open>xs?.slice(0, 3).join(', ')\<close>, which renders
  nothing for a missing list, and whether \<open>xs?.length > 3\<close> adds the dots.
\<close>

definition preview :: "js_string list js_field \<Rightarrow> js_string option \<times> bool" where
  "preview f =
     (case f of
        Present xs \<Rightarrow> (Some (join (js '', '') (take 3 xs)), length xs > 3)
      | _ \<Rightarrow> (None, False))"

text \<open>
  The Spotify card shows either the connected badge with the Clear button and the two
  preview lines, or the connect button.
\<close>

datatype spotify_card =
    ConnectedBadge "js_string option \<times> bool" "js_string option \<times> bool"
  | ConnectButton bool string

record generator_view =
  spotify_card :: spotify_card
  artists_input :: js_string
  genres_input :: js_string
  generate_disabled :: bool
  generate_label :: string

text \<open>
  \<open>HomePage\<close> returns either a \<open>GalleryPage\<close> element with the result as its prop, or
  the form.
\<close>

datatype home_render =
    GalleryPageElement generation_result
  | GeneratorView generator_view

definition HomePage :: "home_state \<Rightarrow> home_render" where
  "HomePage s =
     (case result s of
        Some r \<Rightarrow> GalleryPageElement r
      | None \<Rightarrow>
          GeneratorView
            \<lparr>spotify_card =
               (case spotifyData s of
                  Some d \<Rightarrow> ConnectedBadge (preview (artists d)) (preview (genres d))
                | None \<Rightarrow>
                    ConnectButton (loading s)
                      (if loading s then ''Connecting...'' else ''Connect with Spotify'')),
             artists_input = artistsText s,
             genres_input = genresText s,
             generate_disabled =
               (generating s \<or>
                (\<not> truthy (trim (artistsText s)) \<and> \<not> truthy (trim (genresText s)))),
             generate_label =
               (if generating s then ''Generating Your DJ Persona...''
                else ''Generate DJ Persona'')\<rparr>)"

subsection \<open>\<open>GalleryPage\<close>\<close>

record gallery_state =
  regenerating :: bool
  prompts :: "js_string list"

text \<open>The state at mount: \<open>useState(false)\<close> and \<open>useState(result.prompts)\<close>.\<close>

definition GalleryPage_init :: "generation_result \<Rightarrow> gallery_state" where
  "GalleryPage_init r = \<lparr>regenerating = False, prompts = result_prompts r\<rparr>"

definition handleRegeneratePrompts_call ::
  "generation_result \<Rightarrow> gallery_state \<Rightarrow> gallery_state \<times> effect list" where
  "handleRegeneratePrompts_call r g =
     (g\<lparr>regenerating := True\<rparr>, [Axios (PostRegeneratePrompts (session_id r))])"

definition handleRegeneratePrompts_settle ::
  "axios_error + regenerate_response \<Rightarrow> gallery_state \<Rightarrow> gallery_state \<times> effect list" where
  "handleRegeneratePrompts_settle outcome g =
     (case outcome of
        Inr response \<Rightarrow>
          (g\<lparr>prompts := response_prompts response, regenerating := False\<rparr>,
           [Toast Success ''New prompts generated!''])
      | Inl err \<Rightarrow>
          (g\<lparr>regenerating := False\<rparr>,
           [ConsoleError ''Error regenerating prompts:'' err,
            Toast Error ''Failed to regenerate prompts'']))"

definition handleRegeneratePrompts ::
  "axios_error + regenerate_response \<Rightarrow> generation_result \<Rightarrow> gallery_state \<Rightarrow>
   gallery_state \<times> effect list" where
  "handleRegeneratePrompts outcome r g =
     (let (g1, e1) = handleRegeneratePrompts_call r g;
          (g2, e2) = handleRegeneratePrompts_settle outcome g1
      in (g2, e1 @ e2))"

text \<open>
  An image reference, resolved against the static base path and the session id:
  \<open>/static/uploads/{session_id}/{file}\<close> or \<open>/static/generated/{session_id}/{file}\<close>.
\<close>

datatype asset = StaticUploads js_string js_string | StaticGenerated js_string js_string

text \<open>
  The lower right card: the generated images when \<open>image_urls\<close> is a non-empty list,
  else the prompts with the regenerate button (its disabled flag and its label). The
  palette, the style tags and the prompts are rendered one element per entry, in order.
\<close>

datatype results_card =
    GeneratedImagesCard "asset list"
  | PromptsCard bool string "js_string list"

record gallery_view =
  gv_session :: js_string
  gv_card_title :: js_string
  gv_card_description :: js_string
  gv_palette :: "js_string list"
  gv_style_tags :: "js_string list"
  gv_logo_shape :: js_string
  gv_uploaded_photos :: "asset list option"
  gv_results :: results_card

definition GalleryPage :: "generation_result \<Rightarrow> gallery_state \<Rightarrow> gallery_view" where
  "GalleryPage r g =
     \<lparr>gv_session = session_id r,
      gv_card_title = dj_name (persona r),
      gv_card_description = bio (persona r),
      gv_palette = palette (persona r),
      gv_style_tags = style_tags (persona r),
      gv_logo_shape = logo_shape (persona r),
      gv_uploaded_photos =
        (case uploaded_photos r of
           Present photos \<Rightarrow>
             if length photos > 0 then Some (map (StaticUploads (session_id r)) photos)
             else None
         | _ \<Rightarrow> None),
      gv_results =
        (case image_urls r of
           Present urls \<Rightarrow>
             if length urls > 0 then GeneratedImagesCard (map (StaticGenerated (session_id r)) urls)
             else PromptsCard (regenerating g)
                    (if regenerating g then ''Regenerating...'' else ''Regenerate Prompts'')
                    (prompts g)
         | _ \<Rightarrow>
             PromptsCard (regenerating g)
               (if regenerating g then ''Regenerating...'' else ''Regenerate Prompts'')
               (prompts g))\<rparr>"

text \<open>
  The page on screen: the form, or the gallery that the \<open>GalleryPage\<close> element renders
  from its own state.
\<close>

datatype page = GeneratorPage generator_view | GalleryPageView gallery_view

definition page_of :: "home_state \<Rightarrow> gallery_state \<Rightarrow> page" where
  "page_of s g =
     (case HomePage s of
        GalleryPageElement r \<Rightarrow> GalleryPageView (GalleryPage r g)
      | GeneratorView v \<Rightarrow> GeneratorPage v)"

subsection \<open>Observations on views and effects\<close>

text \<open>Which of the two views a page is.\<close>

fun renders_generator :: "page \<Rightarrow> bool" where
  "renders_generator (GeneratorPage v) = True"
| "renders_generator (GalleryPageView v) = False"

fun renders_gallery :: "page \<Rightarrow> bool" where
  "renders_gallery (GeneratorPage v) = False"
| "renders_gallery (GalleryPageView v) = True"

text \<open>Whether the page shows the badge "Connected to Spotify".\<close>

fun shows_connected_badge :: "page \<Rightarrow> bool" where
  "shows_connected_badge (GeneratorPage v) =
     (case spotify_card v of ConnectedBadge a g \<Rightarrow> True | ConnectButton d l \<Rightarrow> False)"
| "shows_connected_badge (GalleryPageView v) = False"

text \<open>Whether the Generate button of the page, if it has one, is disabled.\<close>

fun generate_button_disabled :: "page \<Rightarrow> bool option" where
  "generate_button_disabled (GeneratorPage v) = Some (generate_disabled v)"
| "generate_button_disabled (GalleryPageView v) = None"

text \<open>The prompt list on screen, if the gallery shows the prompts card.\<close>

definition displayed_prompts :: "gallery_view \<Rightarrow> js_string list option" where
  "displayed_prompts v =
     (case gv_results v of
        PromptsCard d l ps \<Rightarrow> Some ps
      | GeneratedImagesCard imgs \<Rightarrow> None)"

text \<open>The requests and the notifications among a list of effects.\<close>

fun requests_of :: "effect list \<Rightarrow> request list" where
  "requests_of [] = []"
| "requests_of (Axios r # es) = r # requests_of es"
| "requests_of (e # es) = requests_of es"

fun toasts_of :: "effect list \<Rightarrow> (toast_kind \<times> string) list" where
  "toasts_of [] = []"
| "toasts_of (Toast k m # es) = (k, m) # toasts_of es"
| "toasts_of (e # es) = toasts_of es"

fun console_errors_of :: "effect list \<Rightarrow> (string \<times> axios_error) list" where
  "console_errors_of [] = []"
| "console_errors_of (ConsoleError m err # es) = (m, err) # console_errors_of es"
| "console_errors_of (e # es) = console_errors_of es"

text \<open>
  The text predicate of the specification, in its words: a text is blank when it is
  empty or holds white space only.
\<close>

definition whitespace_only :: "js_string \<Rightarrow> bool" where
  "whitespace_only s = list_all isWhiteSpace s"

subsection \<open>Concrete inputs\<close>

definition example_persona :: persona where
  "example_persona =
     \<lparr>dj_name = js ''DJ Nova'', bio = js ''Melodic techno.'',
      palette = [js ''#00ffcc'', js ''#ff8800''],
      style_tags = [js ''techno'', js ''neon''], logo_shape = js ''hexagon''\<rparr>"

definition example_result :: generation_result where
  "example_result =
     \<lparr>session_id = js ''abc'', persona = example_persona,
      result_prompts = [js ''a dj in neon light''],
      uploaded_photos = Absent, image_urls = Present []\<rparr>"

definition example_spotify :: spotify_data where
  "example_spotify =
     \<lparr>artists = Present [js ''Deadmau5''], genres = Absent,
      artists_text = Present (js ''Deadmau5''), genres_text = Present []\<rparr>"

text \<open>A form with a blank artists field and a genre typed in.\<close>

definition example_form :: home_state where
  "example_form = HomePage_init\<lparr>artistsText := js ''  '', genresText := js ''techno''\<rparr>"

text \<open>A form whose two fields hold white space only.\<close>

definition blank_form :: home_state where
  "blank_form = HomePage_init\<lparr>artistsText := js ''  '', genresText := [0x2003, 0x2028]\<rparr>"

text \<open>A connected form: Spotify data, a session id and both texts present.\<close>

definition connected_form :: home_state where
  "connected_form =
     \<lparr>spotifyData = Some example_spotify, loading = False, sessionId = Some (js ''abc''),
      artistsText = js ''Deadmau5'', genresText = js ''techno'', generating = False,
      result = None\<rparr>"

text \<open>The URLs \<open>/?spotify_connected=true&session=abc\<close>,
  \<open>/?spotify_connected=true&session=\<close> and \<open>/?spotify_connected=false&session=abc\<close>.\<close>

definition url_return :: location where
  "url_return =
     \<lparr>pathname = js ''/'',
      search = [(js ''spotify_connected'', js ''true''), (js ''session'', js ''abc'')]\<rparr>"

definition url_empty_session :: location where
  "url_empty_session =
     \<lparr>pathname = js ''/'',
      search = [(js ''spotify_connected'', js ''true''), (js ''session'', [])]\<rparr>"

definition url_connected_false :: location where
  "url_connected_false =
     \<lparr>pathname = js ''/'',
      search = [(js ''spotify_connected'', js ''false''), (js ''session'', js ''abc'')]\<rparr>"

section \<open>Properties\<close>

subsection \<open>\<open>trim\<close> and blank texts\<close>

lemma dropWhile_rev_dropWhile_Nil:
  "dropWhile P (rev (dropWhile P xs)) = [] \<longleftrightarrow> dropWhile P xs = []"
proof
  assume a: "dropWhile P (rev (dropWhile P xs)) = []"
  show "dropWhile P xs = []"
  proof (rule ccontr)
    assume ne: "dropWhile P xs \<noteq> []"
    then have "\<not> P (hd (dropWhile P xs))" by (rule hd_dropWhile)
    moreover from ne have "hd (dropWhile P xs) \<in> set (dropWhile P xs)" by simp
    moreover from a have "\<forall>x\<in>set (dropWhile P xs). P x" by simp
    ultimately show False by blast
  qed
next
  assume "dropWhile P xs = []"
  then show "dropWhile P (rev (dropWhile P xs)) = []"
    by (simp del: dropWhile_eq_Nil_conv)
qed

lemma trim_Nil_iff: "trim s = [] \<longleftrightarrow> whitespace_only s"
proof -
  have "trim s = [] \<longleftrightarrow> dropWhile isWhiteSpace (rev (dropWhile isWhiteSpace s)) = []"
    unfolding trim_def by (simp only: rev_is_Nil_conv)
  also have "\<dots> \<longleftrightarrow> dropWhile isWhiteSpace s = []"
    by (rule dropWhile_rev_dropWhile_Nil)
  also have "\<dots> \<longleftrightarrow> whitespace_only s"
    unfolding whitespace_only_def by (simp add: list_all_iff)
  finally show ?thesis .
qed

lemma truthy_trim: "truthy (trim s) \<longleftrightarrow> \<not> whitespace_only s"
  by (simp add: truthy_def trim_Nil_iff)

text \<open>Evaluation of the literals used below.\<close>

lemma js_simps:
  "js [] = []"
  "js (c # cs) = of_char c # js cs"
  by (simp_all add: js_def)

lemma whitespace_only_simps:
  "whitespace_only [] = True"
  "whitespace_only (c # cs) = (isWhiteSpace c \<and> whitespace_only cs)"
  by (simp_all add: whitespace_only_def)

subsection \<open>View selection\<close>

lemma HomePage_gallery_iff: "(HomePage s = GalleryPageElement r) = (result s = Some r)"
  by (cases "result s") (auto simp: HomePage_def)

lemma HomePage_generator_iff: "(\<exists>v. HomePage s = GeneratorView v) = (result s = None)"
  by (cases "result s") (simp_all add: HomePage_def)

text \<open>
  Claim C1. For every client state exactly one of the two views is on screen, never
  both, and which one depends on the \<open>result\<close> cell alone: \<open>HomePage\<close> returns the
  \<open>GalleryPage\<close> element, with the stored result as its prop, exactly when \<open>result\<close> is
  not \<open>null\<close>, and the form otherwise.
\<close>

theorem view_selected_by_result:
  "renders_gallery (page_of s g) = (result s \<noteq> None) \<and>
   renders_generator (page_of s g) = (result s = None) \<and>
   \<not> (renders_gallery (page_of s g) \<and> renders_generator (page_of s g)) \<and>
   (HomePage s = GalleryPageElement r) = (result s = Some r) \<and>
   (\<exists>v. HomePage s = GeneratorView v) = (result s = None)"
proof (cases "result s")
  case None
  then show ?thesis
    by (simp add: page_of_def HomePage_def)
next
  case (Some r')
  then show ?thesis
    by (auto simp: page_of_def HomePage_def)
qed

theorem view_selected_by_result_witness:
  "renders_generator (page_of connected_form (GalleryPage_init example_result)) \<and>
   \<not> renders_gallery (page_of connected_form (GalleryPage_init example_result)) \<and>
   renders_gallery
     (page_of (connected_form\<lparr>result := Some example_result\<rparr>)
        (GalleryPage_init example_result)) \<and>
   HomePage (connected_form\<lparr>result := Some example_result\<rparr>) =
     GalleryPageElement example_result"
  using view_selected_by_result [of connected_form "GalleryPage_init example_result"]
    view_selected_by_result
      [of "connected_form\<lparr>result := Some example_result\<rparr>"
          "GalleryPage_init example_result" example_result]
  by (simp add: connected_form_def)

subsection \<open>The guard of Generate\<close>

text \<open>
  Claim C2. When the artists text and the genres text are both empty or white space
  only, the Generate button of the form is disabled, and \<open>handleGenerate\<close>, if it runs,
  sends no request and leaves the state as it is; all it does is show an error
  notification. When at least one of the two texts has a character that is not white
  space, the guard passes: the busy flag is raised and the form is posted.
\<close>

theorem generate_guard:
  "(whitespace_only (artistsText s) \<and> whitespace_only (genresText s) \<longrightarrow>
      (result s = None \<longrightarrow> generate_button_disabled (page_of s g) = Some True) \<and>
      handleGenerate_call s =
        (s, [Toast Error
               ''Please provide artists or genres, or connect your Spotify account'']) \<and>
      handleGenerate outcome s =
        (s, [Toast Error
               ''Please provide artists or genres, or connect your Spotify account'']) \<and>
      requests_of (snd (handleGenerate outcome s)) = []) \<and>
   (\<not> (whitespace_only (artistsText s) \<and> whitespace_only (genresText s)) \<longrightarrow>
      (result s = None \<longrightarrow> generate_button_disabled (page_of s g) = Some (generating s)) \<and>
      handleGenerate_call s =
        (s\<lparr>generating := True\<rparr>,
         [Axios (PostGenerate
            [(''session_id'', (case sessionId s of Some sid \<Rightarrow> sid | None \<Rightarrow> [])),
             (''artists_text'', artistsText s),
             (''genres_text'', genresText s)])]))"
proof (cases "whitespace_only (artistsText s) \<and> whitespace_only (genresText s)")
  case True
  then have guard: "\<not> truthy (trim (artistsText s)) \<and> \<not> truthy (trim (genresText s))"
    by (simp add: truthy_trim)
  have call: "handleGenerate_call s =
      (s, [Toast Error
             ''Please provide artists or genres, or connect your Spotify account''])"
    using guard by (simp add: handleGenerate_call_def)
  have whole: "handleGenerate outcome s = handleGenerate_call s"
    using guard by (simp add: handleGenerate_def)
  have button: "result s = None \<Longrightarrow> generate_button_disabled (page_of s g) = Some True"
    using guard by (simp add: page_of_def HomePage_def)
  from True call whole button show ?thesis
    by simp
next
  case False
  then have guard: "\<not> (\<not> truthy (trim (artistsText s)) \<and> \<not> truthy (trim (genresText s)))"
    by (simp add: truthy_trim)
  have call: "handleGenerate_call s =
      (s\<lparr>generating := True\<rparr>,
       [Axios (PostGenerate
          [(''session_id'', (case sessionId s of Some sid \<Rightarrow> sid | None \<Rightarrow> [])),
           (''artists_text'', artistsText s),
           (''genres_text'', genresText s)])])"
    using guard unfolding handleGenerate_call_def by (simp only: if_False)
  have button:
    "result s = None \<Longrightarrow> generate_button_disabled (page_of s g) = Some (generating s)"
    using guard by (auto simp: page_of_def HomePage_def)
  from False call button show ?thesis
    by simp
qed

theorem generate_guard_witness:
  "generate_button_disabled (page_of blank_form (GalleryPage_init example_result)) = Some True \<and>
   handleGenerate (Inr example_result) blank_form =
     (blank_form,
      [Toast Error ''Please provide artists or genres, or connect your Spotify account'']) \<and>
   generate_button_disabled (page_of example_form (GalleryPage_init example_result)) =
     Some False \<and>
   handleGenerate_call example_form =
     (example_form\<lparr>generating := True\<rparr>,
      [Axios (PostGenerate
         [(''session_id'', []), (''artists_text'', js ''  ''),
          (''genres_text'', js ''techno'')])])"
  using generate_guard [of blank_form "GalleryPage_init example_result" "Inr example_result"]
    generate_guard [of example_form "GalleryPage_init example_result" "Inr example_result"]
  by (simp add: blank_form_def example_form_def HomePage_init_def js_simps
      whitespace_only_simps isWhiteSpace_def)

subsection \<open>Failures of the network calls\<close>

text \<open>
  The \<open>catch\<close> blocks of \<open>handleSpotifyConnect\<close>, \<open>handleGenerate\<close> and
  \<open>handleRegeneratePrompts\<close>: the rejection is logged, one error notification is
  shown, no further request is sent, and the only state written is the busy flag,
  which is cleared.
\<close>

lemma handleSpotifyConnect_rejected:
  "handleSpotifyConnect_settle (Inl err) s =
     (s\<lparr>loading := False\<rparr>,
      [ConsoleError ''Error connecting to Spotify:'' err,
       Toast Error ''Failed to connect to Spotify''])"
  by (simp add: handleSpotifyConnect_settle_def)

lemma handleGenerate_rejected:
  "handleGenerate_settle (Inl err) s =
     (s\<lparr>generating := False\<rparr>,
      [ConsoleError ''Error generating persona:'' err,
       Toast Error ''Failed to generate DJ persona''])"
  by (simp add: handleGenerate_settle_def)

lemma handleRegeneratePrompts_rejected:
  "handleRegeneratePrompts_settle (Inl err) g =
     (g\<lparr>regenerating := False\<rparr>,
      [ConsoleError ''Error regenerating prompts:'' err,
       Toast Error ''Failed to regenerate prompts''])"
  by (simp add: handleRegeneratePrompts_settle_def)

lemma sibling_failures_notified:
  "toasts_of (snd (handleSpotifyConnect_settle (Inl err) s)) =
     [(Error, ''Failed to connect to Spotify'')] \<and>
   toasts_of (snd (handleGenerate_settle (Inl err) s)) =
     [(Error, ''Failed to generate DJ persona'')] \<and>
   toasts_of (snd (handleRegeneratePrompts_settle (Inl err) g)) =
     [(Error, ''Failed to regenerate prompts'')]"
  by (simp add: handleSpotifyConnect_rejected handleGenerate_rejected
      handleRegeneratePrompts_rejected)

text \<open>
  Claim C3 asks that a failure of any of the four network calls be caught, logged and
  shown to the user as a notification. The session fetch does the first two only: a
  rejected \<open>GET /api/session/{id}/spotify\<close> is caught and logged on the console, the
  state is left as it was, and no notification at all is shown.
\<close>

theorem session_fetch_failure_unnotified:
  "fetchSpotifyData_settle (Inl err) s =
     (s, [ConsoleError ''Error fetching Spotify data:'' err]) \<and>
   console_errors_of (snd (fetchSpotifyData_settle (Inl err) s)) =
     [(''Error fetching Spotify data:'', err)] \<and>
   toasts_of (snd (fetchSpotifyData_settle (Inl err) s)) = []"
  by (simp add: fetchSpotifyData_settle_def)

theorem session_fetch_failure_unnotified_witness:
  "toasts_of
     (snd (snd (useEffect_mount url_return HomePage_init)) @
      snd (fetchSpotifyData_settle (Inl NetworkError)
             (fst (useEffect_mount url_return HomePage_init)))) = [] \<and>
   fst (fetchSpotifyData_settle (Inl NetworkError)
          (fst (useEffect_mount url_return HomePage_init))) =
     HomePage_init\<lparr>sessionId := Some (js ''abc'')\<rparr>"
  using session_fetch_failure_unnotified
    [of NetworkError "fst (useEffect_mount url_return HomePage_init)"]
  by (simp add: useEffect_mount_def url_return_def get_def js_simps truthy_def
      fetchSpotifyData_call_def)

subsection \<open>Return from Spotify authorisation\<close>

lemma replaceState_pathname: "replaceState (pathname loc) loc = loc\<lparr>search := []\<rparr>"
  by (simp add: replaceState_def)

lemma useEffect_mount_truthy:
  assumes "get (search loc) (js ''spotify_connected'') = Some c" and "c \<noteq> []"
    and "get (search loc) (js ''session'') = Some sid" and "sid \<noteq> []"
  shows "useEffect_mount loc s =
    (s\<lparr>sessionId := Some sid\<rparr>, loc\<lparr>search := []\<rparr>, [Axios (GetSessionSpotify sid)])"
  using assms
  by (simp add: useEffect_mount_def Let_def truthy_def replaceState_pathname
      fetchSpotifyData_call_def)

lemma useEffect_mount_falsy:
  assumes "get (search loc) (js ''spotify_connected'') \<in> {None, Some []} \<or>
           get (search loc) (js ''session'') \<in> {None, Some []}"
  shows "useEffect_mount loc s = (s, loc, [])"
  using assms
  by (auto simp: useEffect_mount_def Let_def truthy_def split: option.splits)

lemma fetchSpotifyData_loaded:
  "fetchSpotifyData_settle (Inr (SessionResponse (Present d))) s =
     (s\<lparr>spotifyData := Some d,
        artistsText := js_or (artists_text d) [],
        genresText := js_or (genres_text d) []\<rparr>,
      [Toast Success ''Spotify data loaded successfully!''])"
  by (simp add: fetchSpotifyData_settle_def)

text \<open>
  Claim C4, as stated, fails when the session parameter is empty. At
  \<open>/?spotify_connected=true&session=\<close> the URL carries both parameters, yet the effect
  does nothing: no session id is stored (in particular not the empty one), no request is
  sent, and the query stays in the URL.
\<close>

theorem empty_session_return_ignored:
  "(js ''spotify_connected'', js ''true'') \<in> set (search url_empty_session) \<and>
   (js ''session'', []) \<in> set (search url_empty_session) \<and>
   useEffect_mount url_empty_session HomePage_init =
     (HomePage_init, url_empty_session, []) \<and>
   sessionId (fst (useEffect_mount url_empty_session HomePage_init)) \<noteq> Some [] \<and>
   requests_of (snd (snd (useEffect_mount url_empty_session HomePage_init))) = [] \<and>
   search (fst (snd (useEffect_mount url_empty_session HomePage_init))) \<noteq> []"
  by (simp add: useEffect_mount_def url_empty_session_def HomePage_init_def get_def
      truthy_def js_simps)

text \<open>
  Claim C4, amended. Whenever \<open>URLSearchParams.get\<close> on the page URL gives \<open>true\<close> for
  \<open>spotify_connected\<close> and a non-empty \<open>S\<close> for \<open>session\<close>, the effect at mount stores
  \<open>S\<close> as the session id, sends the session request for \<open>S\<close> and nothing else, and
  replaces the visible URL by its path, so that neither parameter is in it any more; the
  page is not reloaded (no navigation is among the effects). When that request returns
  a \<open>spotify_data\<close> object, it is stored and the two text fields are set to its
  \<open>artists_text\<close> and \<open>genres_text\<close>, the empty string standing in for a missing or
  empty one.
\<close>

theorem spotify_return_on_mount:
  assumes "get (search loc) (js ''spotify_connected'') = Some (js ''true'')"
    and "get (search loc) (js ''session'') = Some S"
    and "S \<noteq> []"
  shows "useEffect_mount loc s =
      (s\<lparr>sessionId := Some S\<rparr>, loc\<lparr>search := []\<rparr>, [Axios (GetSessionSpotify S)]) \<and>
    get (search (fst (snd (useEffect_mount loc s)))) (js ''spotify_connected'') = None \<and>
    get (search (fst (snd (useEffect_mount loc s)))) (js ''session'') = None \<and>
    pathname (fst (snd (useEffect_mount loc s))) = pathname loc \<and>
    fetchSpotifyData_settle (Inr (SessionResponse (Present d))) t =
      (t\<lparr>spotifyData := Some d,
         artistsText := js_or (artists_text d) [],
         genresText := js_or (genres_text d) []\<rparr>,
       [Toast Success ''Spotify data loaded successfully!''])"
proof -
  have true_truthy: "js ''true'' \<noteq> []"
    by (simp add: js_simps)
  from assms(1) true_truthy assms(2,3) have mount: "useEffect_mount loc s =
      (s\<lparr>sessionId := Some S\<rparr>, loc\<lparr>search := []\<rparr>, [Axios (GetSessionSpotify S)])"
    by (rule useEffect_mount_truthy)
  then show ?thesis
    by (simp add: get_def fetchSpotifyData_loaded)
qed

theorem spotify_return_on_mount_witness:
  "useEffect_mount url_return HomePage_init =
     (HomePage_init\<lparr>sessionId := Some (js ''abc'')\<rparr>,
      \<lparr>pathname = js ''/'', search = []\<rparr>,
      [Axios (GetSessionSpotify (js ''abc''))]) \<and>
   fetchSpotifyData_settle (Inr (SessionResponse (Present example_spotify)))
       (HomePage_init\<lparr>sessionId := Some (js ''abc'')\<rparr>) =
     (HomePage_init\<lparr>sessionId := Some (js ''abc''), spotifyData := Some example_spotify,
        artistsText := js ''Deadmau5'', genresText := []\<rparr>,
      [Toast Success ''Spotify data loaded successfully!''])"
  using spotify_return_on_mount
    [of url_return "js ''abc''" HomePage_init example_spotify
        "HomePage_init\<lparr>sessionId := Some (js ''abc'')\<rparr>"]
  by (simp add: url_return_def get_def js_simps HomePage_init_def example_spotify_def
      js_or_def truthy_def)

text \<open>
  Claim C10. The detection tests the two parameters for truthiness only: for any
  non-empty value of \<open>spotify_connected\<close>, \<open>false\<close> among them, and any non-empty
  \<open>session\<close> value \<open>S\<close>, the effect stores \<open>S\<close>, sends the session request for \<open>S\<close>
  and strips the query from the URL.
\<close>

theorem return_detection_by_truthiness:
  assumes "get (search loc) (js ''spotify_connected'') = Some c" and "c \<noteq> []"
    and "get (search loc) (js ''session'') = Some S" and "S \<noteq> []"
  shows "useEffect_mount loc s =
      (s\<lparr>sessionId := Some S\<rparr>, loc\<lparr>search := []\<rparr>, [Axios (GetSessionSpotify S)]) \<and>
    sessionId (fst (useEffect_mount loc s)) = Some S \<and>
    requests_of (snd (snd (useEffect_mount loc s))) = [GetSessionSpotify S] \<and>
    search (fst (snd (useEffect_mount loc s))) = []"
proof -
  from assms have "useEffect_mount loc s =
      (s\<lparr>sessionId := Some S\<rparr>, loc\<lparr>search := []\<rparr>, [Axios (GetSessionSpotify S)])"
    by (rule useEffect_mount_truthy)
  then show ?thesis
    by simp
qed

theorem return_detection_by_truthiness_witness:
  "get (search url_connected_false) (js ''spotify_connected'') = Some (js ''false'') \<and>
   useEffect_mount url_connected_false HomePage_init =
     (HomePage_init\<lparr>sessionId := Some (js ''abc'')\<rparr>,
      \<lparr>pathname = js ''/'', search = []\<rparr>,
      [Axios (GetSessionSpotify (js ''abc''))])"
  using return_detection_by_truthiness
    [of url_connected_false "js ''false''" "js ''abc''" HomePage_init]
  by (simp add: url_connected_false_def get_def js_simps)

subsection \<open>Generate: failure and success\<close>

lemma handleGenerate_passed:
  assumes "\<not> (whitespace_only (artistsText s) \<and> whitespace_only (genresText s))"
  shows "handleGenerate outcome s =
    (fst (handleGenerate_settle outcome (s\<lparr>generating := True\<rparr>)),
     Axios (PostGenerate
        [(''session_id'', (case sessionId s of Some sid \<Rightarrow> sid | None \<Rightarrow> [])),
         (''artists_text'', artistsText s),
         (''genres_text'', genresText s)]) #
     snd (handleGenerate_settle outcome (s\<lparr>generating := True\<rparr>)))"
proof -
  from assms have guard:
    "\<not> (\<not> truthy (trim (artistsText s)) \<and> \<not> truthy (trim (genresText s)))"
    by (simp add: truthy_trim)
  then have "handleGenerate_call s =
      (s\<lparr>generating := True\<rparr>,
       [Axios (PostGenerate
          [(''session_id'', (case sessionId s of Some sid \<Rightarrow> sid | None \<Rightarrow> [])),
           (''artists_text'', artistsText s),
           (''genres_text'', genresText s)])])"
    unfolding handleGenerate_call_def by (simp only: if_False)
  moreover from guard have "handleGenerate outcome s =
      (let (s1, e1) = handleGenerate_call s;
           (s2, e2) = handleGenerate_settle outcome s1
       in (s2, e1 @ e2))"
    unfolding handleGenerate_def by (simp only: if_False)
  ultimately show ?thesis
    by (simp add: split_beta)
qed

text \<open>
  Claim C5. In the Generator View, when the generate request fails, an error
  notification is shown, the artists text, the genres text, the session id and the
  Spotify data are as before, the result is still absent (the form stays on screen),
  and the busy flag is cleared. The continuation itself writes the busy flag only, on
  whatever state it finds.
\<close>

theorem generate_failure_leaves_form:
  assumes "result s = None"
    and "\<not> (whitespace_only (artistsText s) \<and> whitespace_only (genresText s))"
  shows "handleGenerate (Inl err) s =
      (s\<lparr>generating := False\<rparr>,
       [Axios (PostGenerate
          [(''session_id'', (case sessionId s of Some sid \<Rightarrow> sid | None \<Rightarrow> [])),
           (''artists_text'', artistsText s),
           (''genres_text'', genresText s)]),
        ConsoleError ''Error generating persona:'' err,
        Toast Error ''Failed to generate DJ persona'']) \<and>
    artistsText (fst (handleGenerate (Inl err) s)) = artistsText s \<and>
    genresText (fst (handleGenerate (Inl err) s)) = genresText s \<and>
    sessionId (fst (handleGenerate (Inl err) s)) = sessionId s \<and>
    spotifyData (fst (handleGenerate (Inl err) s)) = spotifyData s \<and>
    result (fst (handleGenerate (Inl err) s)) = None \<and>
    generating (fst (handleGenerate (Inl err) s)) = False \<and>
    renders_generator (page_of (fst (handleGenerate (Inl err) s)) g) \<and>
    toasts_of (snd (handleGenerate (Inl err) s)) =
      [(Error, ''Failed to generate DJ persona'')] \<and>
    handleGenerate_settle (Inl err) t =
      (t\<lparr>generating := False\<rparr>,
       [ConsoleError ''Error generating persona:'' err,
        Toast Error ''Failed to generate DJ persona''])"
proof -
  have whole: "handleGenerate (Inl err) s =
      (s\<lparr>generating := False\<rparr>,
       [Axios (PostGenerate
          [(''session_id'', (case sessionId s of Some sid \<Rightarrow> sid | None \<Rightarrow> [])),
           (''artists_text'', artistsText s),
           (''genres_text'', genresText s)]),
        ConsoleError ''Error generating persona:'' err,
        Toast Error ''Failed to generate DJ persona''])"
    by (simp add: handleGenerate_passed [OF assms(2)] handleGenerate_rejected)
  have page: "renders_generator (page_of (s\<lparr>generating := False\<rparr>) g)"
    using assms(1) by (simp add: page_of_def HomePage_def)
  from whole page assms(1) show ?thesis
    by (simp add: handleGenerate_rejected)
qed

theorem generate_failure_leaves_form_witness:
  "handleGenerate (Inl (StatusError 500)) connected_form =
     (connected_form,
      [Axios (PostGenerate
         [(''session_id'', js ''abc''), (''artists_text'', js ''Deadmau5''),
          (''genres_text'', js ''techno'')]),
       ConsoleError ''Error generating persona:'' (StatusError 500),
       Toast Error ''Failed to generate DJ persona'']) \<and>
   renders_generator
     (page_of (fst (handleGenerate (Inl (StatusError 500)) connected_form))
        (GalleryPage_init example_result))"
  using generate_failure_leaves_form
    [of connected_form "StatusError 500" "GalleryPage_init example_result" connected_form]
  by (simp add: connected_form_def js_simps whitespace_only_simps isWhiteSpace_def
      page_of_def HomePage_def)

text \<open>
  Claim C8. After a successful generate call the page is the Gallery View of the
  returned result, and that view shows the persona's \<open>dj_name\<close> as its title and the
  \<open>style_tags\<close> list, element by element and in order, as its tag badges.
\<close>

theorem gallery_shows_persona:
  "(\<not> (whitespace_only (artistsText s) \<and> whitespace_only (genresText s)) \<longrightarrow>
      page_of (fst (handleGenerate (Inr r) s)) g = GalleryPageView (GalleryPage r g)) \<and>
   page_of (fst (handleGenerate_settle (Inr r) t)) g = GalleryPageView (GalleryPage r g) \<and>
   gv_card_title (GalleryPage r g) = dj_name (persona r) \<and>
   gv_style_tags (GalleryPage r g) = style_tags (persona r)"
proof -
  have settle: "page_of (fst (handleGenerate_settle (Inr r) u)) g =
      GalleryPageView (GalleryPage r g)" for u
    by (simp add: handleGenerate_settle_def page_of_def HomePage_def)
  have whole: "page_of (fst (handleGenerate (Inr r) s)) g = GalleryPageView (GalleryPage r g)"
    if "\<not> (whitespace_only (artistsText s) \<and> whitespace_only (genresText s))"
    using settle [of "s\<lparr>generating := True\<rparr>"] by (simp add: handleGenerate_passed [OF that])
  have shown: "gv_card_title (GalleryPage r g) = dj_name (persona r) \<and>
      gv_style_tags (GalleryPage r g) = style_tags (persona r)"
    by (simp add: GalleryPage_def)
  from settle whole shown show ?thesis
    by blast
qed

theorem gallery_shows_persona_witness:
  "page_of (fst (handleGenerate (Inr example_result) example_form))
     (GalleryPage_init example_result) =
     GalleryPageView (GalleryPage example_result (GalleryPage_init example_result)) \<and>
   gv_card_title (GalleryPage example_result (GalleryPage_init example_result)) =
     js ''DJ Nova'' \<and>
   gv_style_tags (GalleryPage example_result (GalleryPage_init example_result)) =
     [js ''techno'', js ''neon'']"
  using gallery_shows_persona
    [of example_form example_result "GalleryPage_init example_result" example_form]
  by (simp add: example_form_def HomePage_init_def example_result_def example_persona_def
      js_simps whitespace_only_simps isWhiteSpace_def)

subsection \<open>Regenerate prompts\<close>

text \<open>
  Claim C6. When the regenerate request fails, the prompt list, and with it the list on
  screen, is the one from before, an error notification is shown, and the one request
  that was sent is not repeated. When it succeeds, the prompt list is the one of the
  response, and so is the list on screen wherever the prompts card is shown.
\<close>

theorem regenerate_prompts_outcomes:
  "handleRegeneratePrompts (Inl err) r g =
     (g\<lparr>regenerating := False\<rparr>,
      [Axios (PostRegeneratePrompts (session_id r)),
       ConsoleError ''Error regenerating prompts:'' err,
       Toast Error ''Failed to regenerate prompts'']) \<and>
   prompts (fst (handleRegeneratePrompts (Inl err) r g)) = prompts g \<and>
   displayed_prompts (GalleryPage r (fst (handleRegeneratePrompts (Inl err) r g))) =
     displayed_prompts (GalleryPage r g) \<and>
   requests_of (snd (handleRegeneratePrompts (Inl err) r g)) =
     [PostRegeneratePrompts (session_id r)] \<and>
   requests_of (snd (handleRegeneratePrompts_settle (Inl err) g')) = [] \<and>
   prompts (fst (handleRegeneratePrompts (Inr response) r g)) = response_prompts response \<and>
   (displayed_prompts (GalleryPage r g) \<noteq> None \<longrightarrow>
      displayed_prompts (GalleryPage r (fst (handleRegeneratePrompts (Inr response) r g))) =
        Some (response_prompts response))"
proof -
  have failed: "handleRegeneratePrompts (Inl err) r g =
     (g\<lparr>regenerating := False\<rparr>,
      [Axios (PostRegeneratePrompts (session_id r)),
       ConsoleError ''Error regenerating prompts:'' err,
       Toast Error ''Failed to regenerate prompts''])"
    by (simp add: handleRegeneratePrompts_def handleRegeneratePrompts_call_def
        handleRegeneratePrompts_rejected)
  have succeeded: "fst (handleRegeneratePrompts (Inr response) r g) =
      g\<lparr>prompts := response_prompts response, regenerating := False\<rparr>"
    by (simp add: handleRegeneratePrompts_def handleRegeneratePrompts_call_def
        handleRegeneratePrompts_settle_def)
  have same_list: "displayed_prompts (GalleryPage r (g\<lparr>regenerating := False\<rparr>)) =
      displayed_prompts (GalleryPage r g)"
    by (simp add: displayed_prompts_def GalleryPage_def split: js_field.splits)
  have new_list: "displayed_prompts (GalleryPage r g) \<noteq> None \<Longrightarrow>
      displayed_prompts
        (GalleryPage r (g\<lparr>prompts := response_prompts response, regenerating := False\<rparr>)) =
      Some (response_prompts response)"
    by (simp add: displayed_prompts_def GalleryPage_def split: js_field.splits if_splits)
  from failed succeeded same_list new_list show ?thesis
    by (simp add: handleRegeneratePrompts_rejected)
qed

theorem regenerate_prompts_outcomes_witness:
  "displayed_prompts (GalleryPage example_result (GalleryPage_init example_result)) =
     Some [js ''a dj in neon light''] \<and>
   displayed_prompts
     (GalleryPage example_result
        (fst (handleRegeneratePrompts (Inl NetworkError) example_result
                (GalleryPage_init example_result)))) =
     Some [js ''a dj in neon light''] \<and>
   displayed_prompts
     (GalleryPage example_result
        (fst (handleRegeneratePrompts (Inr (RegenerateResponse [js ''p1'', js ''p2'']))
                example_result (GalleryPage_init example_result)))) =
     Some [js ''p1'', js ''p2'']"
  using regenerate_prompts_outcomes
    [of NetworkError example_result "GalleryPage_init example_result"
        "GalleryPage_init example_result" "RegenerateResponse [js ''p1'', js ''p2'']"]
  by (simp add: displayed_prompts_def GalleryPage_def GalleryPage_init_def
      example_result_def)

subsection \<open>Clear\<close>

text \<open>
  Claim C7. From any state, Clear empties the artists and genres text fields and sets
  the Spotify data and the session id to \<open>null\<close>; no page rendered from the new state
  shows the connected badge. The other state cells are not written.
\<close>

theorem clear_resets_spotify:
  "clearSpotify s =
     (s\<lparr>spotifyData := None, sessionId := None, artistsText := [], genresText := []\<rparr>,
      [Toast Info ''Spotify data cleared'']) \<and>
   artistsText (fst (clearSpotify s)) = [] \<and>
   genresText (fst (clearSpotify s)) = [] \<and>
   spotifyData (fst (clearSpotify s)) = None \<and>
   sessionId (fst (clearSpotify s)) = None \<and>
   loading (fst (clearSpotify s)) = loading s \<and>
   generating (fst (clearSpotify s)) = generating s \<and>
   result (fst (clearSpotify s)) = result s \<and>
   \<not> shows_connected_badge (page_of (fst (clearSpotify s)) g)"
proof -
  have "\<not> shows_connected_badge (page_of (fst (clearSpotify s)) g)"
    by (cases "result s") (simp_all add: clearSpotify_def page_of_def HomePage_def)
  then show ?thesis
    by (simp add: clearSpotify_def)
qed

theorem clear_resets_spotify_witness:
  "shows_connected_badge (page_of connected_form (GalleryPage_init example_result)) \<and>
   \<not> shows_connected_badge
       (page_of (fst (clearSpotify connected_form)) (GalleryPage_init example_result)) \<and>
   fst (clearSpotify connected_form) = HomePage_init"
  using clear_resets_spotify [of connected_form "GalleryPage_init example_result"]
  by (simp add: connected_form_def HomePage_init_def page_of_def HomePage_def)

subsection \<open>A session without Spotify data\<close>

text \<open>
  Claim C9. When the body of the session response has no \<open>spotify_data\<close> property, or
  has \<open>null\<close> there, the client stores nothing and changes no text field (the state is
  left as it is), and it reports nothing: no notification and no console error. A
  client that was not connected stays so, with the connect button on screen.
\<close>

theorem missing_spotify_data_not_connected:
  assumes "spotify_data response = Absent \<or> spotify_data response = Null"
  shows "fetchSpotifyData_settle (Inr response) s = (s, []) \<and>
    toasts_of (snd (fetchSpotifyData_settle (Inr response) s)) = [] \<and>
    console_errors_of (snd (fetchSpotifyData_settle (Inr response) s)) = [] \<and>
    (spotifyData s = None \<longrightarrow>
       spotifyData (fst (fetchSpotifyData_settle (Inr response) s)) = None \<and>
       \<not> shows_connected_badge (page_of (fst (fetchSpotifyData_settle (Inr response) s)) g))"
proof -
  from assms have same: "fetchSpotifyData_settle (Inr response) s = (s, [])"
    by (auto simp: fetchSpotifyData_settle_def)
  have "\<not> shows_connected_badge (page_of s g)" if "spotifyData s = None"
    using that by (cases "result s") (simp_all add: page_of_def HomePage_def)
  with same show ?thesis
    by simp
qed

theorem missing_spotify_data_not_connected_witness:
  "fetchSpotifyData_settle (Inr (SessionResponse Null)) example_form = (example_form, []) \<and>
   fetchSpotifyData_settle (Inr (SessionResponse Absent)) example_form = (example_form, []) \<and>
   \<not> shows_connected_badge
       (page_of (fst (fetchSpotifyData_settle (Inr (SessionResponse Absent)) example_form))
          (GalleryPage_init example_result))"
  using missing_spotify_data_not_connected
    [of "SessionResponse Null" example_form "GalleryPage_init example_result"]
    missing_spotify_data_not_connected
    [of "SessionResponse Absent" example_form "GalleryPage_init example_result"]
  by (simp add: example_form_def HomePage_init_def page_of_def HomePage_def
      fetchSpotifyData_settle_def)

end
